theory Spec2Isabelle
  imports Complex_Main "HOL-Library.Multiset"
begin

section \<open>Data model of the dashboard's series pipeline (src/main.py)\<close>

text \<open>
  The script reads a CSV file into a pandas data frame and derives every chart from it.
  The pandas calls are modelled by what they compute on the columns the script passes:

  \<^item> a timestamp is the integer pandas stores for \<open>datetime64[ns]\<close>: nanoseconds since
    1970-01-01T00:00; a cell that \<open>pd.to_datetime(..., errors="coerce")\<close> could not
    parse is \<open>NaT\<close>, here \<open>None\<close>;
  \<^item> a numeric cell of the frame is the decimal number read from the file, or \<open>NaN\<close>
    where \<open>pd.to_numeric(..., errors="coerce")\<close> could not parse it: \<open>Some x\<close> or \<open>None\<close>.
    The operations on finite values are the exact ones on the reals: the rounding and
    the overflow of binary floating point and the sign of zero are not represented. So
    a theorem below says which expression the script evaluates and where its result is
    missing or infinite, not which digits the rounded result has;
  \<^item> a cell can also hold an infinity, the text \<open>inf\<close> being a number for
    \<open>pd.to_numeric\<close>. The frame type leaves such cells out; the monthly return, whose
    result can be infinite on finite values too, is modelled on them as well, with the
    type \<open>val\<close> of the values that are not \<open>NaN\<close> and the type \<open>fl\<close> of all values.
\<close>

type_synonym timestamp = int

type_synonym num = "real option"

record raw_row =
  Open_time_raw :: "timestamp option"
  Open_raw :: num
  High_raw :: num
  Low_raw :: num
  Close_raw :: num
  Volume_raw :: num

text \<open>A row of the data frame once \<open>Open time\<close> is its index.\<close>

record row =
  idx :: timestamp
  Open :: num
  High :: num
  Low :: num
  Close :: num
  Volume :: num

subsection \<open>\<open>load_data\<close> (lines 33-46)\<close>

text \<open>
  \<open>df.dropna(subset=["Open time", "Close"])\<close> keeps the rows in which neither cell is
  missing.
\<close>

definition dropna_subset :: "raw_row list \<Rightarrow> raw_row list" where
  "dropna_subset df = filter (\<lambda>r. Open_time_raw r \<noteq> None \<and> Close_raw r \<noteq> None) df"

text \<open>
  \<open>.sort_values("Open time")\<close>: ascending by the timestamp. pandas' default sort is not
  stable, so it leaves the order of rows with equal timestamps open; the model orders
  them as a stable sort does. What is proved of \<open>load_data\<close> holds for any order of such
  rows. A value that depends on that order, such as the last value of a bucket whose
  last rows have one timestamp, is evaluated below on frames with distinct timestamps
  only.
\<close>

definition sort_values :: "raw_row list \<Rightarrow> raw_row list" where
  "sort_values df = sort_key (\<lambda>r. the (Open_time_raw r)) df"

definition set_index_row :: "raw_row \<Rightarrow> row" where
  "set_index_row r =
     \<lparr>idx = the (Open_time_raw r), Open = Open_raw r, High = High_raw r, Low = Low_raw r,
      Close = Close_raw r, Volume = Volume_raw r\<rparr>"

definition set_index :: "raw_row list \<Rightarrow> row list" where
  "set_index df = map set_index_row df"

definition load_data :: "raw_row list \<Rightarrow> row list" where
  "load_data csv = set_index (sort_values (dropna_subset csv))"

subsection \<open>Halting the script\<close>

text \<open>
  Where a frame or series is empty the script shows a message and calls \<open>st.stop()\<close>
  (lines 80-82, 105-107, 113-115); nothing after it runs.
\<close>

datatype halt = Load_empty | Range_empty | Serie_empty

subsection \<open>Date range (lines 96-107)\<close>

definition ns_per_day :: int where
  "ns_per_day = 86400000000000"

text \<open>\<open>Timestamp.date()\<close>: the calendar day, as the number of days since 1970-01-01.\<close>

definition date :: "timestamp \<Rightarrow> int" where
  "date t = t div ns_per_day"

definition min_d :: "row list \<Rightarrow> int" where
  "min_d df = date (Min (set (map idx df)))"

definition max_d :: "row list \<Rightarrow> int" where
  "max_d df = date (Max (set (map idx df)))"

text \<open>
  A date string \<open>YYYY-MM-DD\<close> used as a slice bound on a \<open>DatetimeIndex\<close> stands for the
  whole day: as a lower bound for its first instant, as an upper bound for its last.
\<close>

definition day_start :: "int \<Rightarrow> timestamp" where
  "day_start d = d * ns_per_day"

definition day_end :: "int \<Rightarrow> timestamp" where
  "day_end d = d * ns_per_day + (ns_per_day - 1)"

text \<open>
  \<open>df.loc[str(dt_ini):str(dt_fim)]\<close> on the index sorted by \<open>load_data\<close>: the contiguous
  run of rows that starts at the first row not before the lower bound and ends with the
  last row not after the upper bound. An empty run is returned as an empty frame.
\<close>

definition df_loc :: "row list \<Rightarrow> int \<Rightarrow> int \<Rightarrow> row list" where
  "df_loc df dt_ini dt_fim =
     takeWhile (\<lambda>r. idx r \<le> day_end dt_fim) (dropWhile (\<lambda>r. idx r < day_start dt_ini) df)"

text \<open>Lines 79-82 and 104-107: the two emptiness checks around the slice.\<close>

definition select_range :: "row list \<Rightarrow> int \<Rightarrow> int \<Rightarrow> halt + row list" where
  "select_range df dt_ini dt_fim =
     (if df = [] then Inl Load_empty
      else let df' = df_loc df dt_ini dt_fim
           in if df' = [] then Inl Range_empty else Inr df')"

subsection \<open>Resampling (lines 109-115 and 224)\<close>

datatype periodicidade = Dia | Mes | Ano

datatype freq = Freq_D | Freq_M | Freq_Y

fun freq_map :: "periodicidade \<Rightarrow> freq" where
  "freq_map Dia = Freq_D"
| "freq_map Mes = Freq_M"
| "freq_map Ano = Freq_Y"

datatype metrica = Close_m | Open_m | High_m | Low_m | Volume_m

fun column :: "metrica \<Rightarrow> row \<Rightarrow> num" where
  "column Close_m r = Close r"
| "column Open_m r = Open r"
| "column High_m r = High r"
| "column Low_m r = Low r"
| "column Volume_m r = Volume r"

datatype agg = Sum | Last

definition agg_of :: "metrica \<Rightarrow> agg" where
  "agg_of metrica = (if metrica = Volume_m then Sum else Last)"

text \<open>
  The proleptic Gregorian year and month of a day number, as pandas derives them from
  the timestamp.
\<close>

definition year_month :: "int \<Rightarrow> int \<times> int" where
  "year_month days =
     (let z = days + 719468;
          era = z div 146097;
          doe = z - era * 146097;
          yoe = (doe - doe div 1460 + doe div 36524 - doe div 146096) div 365;
          y = yoe + era * 400;
          doy = doe - (365 * yoe + yoe div 4 - yoe div 100);
          mp = (5 * doy + 2) div 153;
          m = (if mp < 10 then mp + 3 else mp - 9)
      in (if m \<le> 2 then y + 1 else y, m))"

text \<open>
  The calendar bucket of a timestamp, numbered consecutively: the day number, the month
  number \<open>12 * year + (month - 1)\<close>, or the year. pandas labels a bucket with a timestamp
  of the period; the model keeps the number.
\<close>

fun bucket :: "freq \<Rightarrow> timestamp \<Rightarrow> int" where
  "bucket Freq_D t = date t"
| "bucket Freq_M t = (case year_month (date t) of (y, m) \<Rightarrow> 12 * y + (m - 1))"
| "bucket Freq_Y t = fst (year_month (date t))"

text \<open>The values that are not \<open>NaN\<close>, in order.\<close>

definition notna :: "num list \<Rightarrow> real list" where
  "notna xs = List.map_filter (\<lambda>x. x) xs"

text \<open>
  The two reductions of a bucket. \<open>last\<close> is the last value of the bucket that is not
  \<open>NaN\<close>, and \<open>NaN\<close> where there is none; \<open>sum\<close> adds the values that are not \<open>NaN\<close>, and
  is 0 where there is none (pandas' \<open>min_count=0\<close>).
\<close>

fun reduce :: "agg \<Rightarrow> num list \<Rightarrow> num" where
  "reduce Last vs = (if notna vs = [] then None else Some (last (notna vs)))"
| "reduce Sum vs = Some (sum_list (notna vs))"

definition in_bucket :: "freq \<Rightarrow> int \<Rightarrow> (timestamp \<times> num) list \<Rightarrow> num list" where
  "in_bucket f b s = map snd (filter (\<lambda>(t, v). bucket f t = b) s)"

text \<open>
  \<open>s.resample(freq).agg(agg)\<close>: one output row for every bucket from the bucket of the
  earliest timestamp through the bucket of the latest, also for those in between that no
  row falls into. An empty series resamples to an empty series.
\<close>

definition resample_agg :: "freq \<Rightarrow> agg \<Rightarrow> (timestamp \<times> num) list \<Rightarrow> (int \<times> num) list" where
  "resample_agg f a s =
     (if s = [] then []
      else map (\<lambda>b. (b, reduce a (in_bucket f b s)))
             [bucket f (Min (set (map fst s))) .. bucket f (Max (set (map fst s)))])"

text \<open>\<open>.dropna()\<close> on a series: the entries that are not \<open>NaN\<close>.\<close>

definition dropna :: "('k \<times> num) list \<Rightarrow> ('k \<times> real) list" where
  "dropna s = List.map_filter (\<lambda>(k, v). case v of None \<Rightarrow> None | Some x \<Rightarrow> Some (k, x)) s"

text \<open>Line 112: \<open>serie = df[metrica].resample(freq).agg(agg).dropna()\<close>.\<close>

definition serie :: "row list \<Rightarrow> metrica \<Rightarrow> periodicidade \<Rightarrow> (int \<times> real) list" where
  "serie df metrica p =
     dropna (resample_agg (freq_map p) (agg_of metrica) (map (\<lambda>r. (idx r, column metrica r)) df))"

text \<open>Line 224: \<open>close_m = df["Close"].resample("M").last().dropna()\<close>.\<close>

definition close_m :: "row list \<Rightarrow> (int \<times> real) list" where
  "close_m df = dropna (resample_agg Freq_M Last (map (\<lambda>r. (idx r, Close r)) df))"

subsection \<open>Summary figures (lines 113-127)\<close>

record kpis =
  primeiro :: real
  ultimo :: real
  var_pct :: real

definition kpi :: "real list \<Rightarrow> halt + kpis" where
  "kpi s =
     (if s = [] then Inl Serie_empty
      else let ultimo = last s;
               primeiro = hd s;
               var_pct = (if primeiro \<noteq> 0 then (ultimo - primeiro) / primeiro * 100 else 0)
           in Inr \<lparr>primeiro = primeiro, ultimo = ultimo, var_pct = var_pct\<rparr>)"

subsection \<open>Monthly return (lines 224-225)\<close>

text \<open>
  The values of floating-point arithmetic: a finite value, an infinity or \<open>NaN\<close>. Division
  of a nonzero finite value by zero is an infinity and \<open>0 / 0\<close> is \<open>NaN\<close>, as in
  IEEE 754 arithmetic, which numpy applies elementwise without raising.
\<close>

datatype fl = Fin real | PInf | NInf | NaN

text \<open>The values that \<open>dropna\<close> leaves in a series: all but \<open>NaN\<close>.\<close>

datatype val = Finite real | PosInf | NegInf

fun fl_of :: "val \<Rightarrow> fl" where
  "fl_of (Finite x) = Fin x"
| "fl_of PosInf = PInf"
| "fl_of NegInf = NInf"


fun fdiv :: "fl \<Rightarrow> fl \<Rightarrow> fl" where
  "fdiv NaN _ = NaN"
| "fdiv _ NaN = NaN"
| "fdiv (Fin a) (Fin b) =
     (if b \<noteq> 0 then Fin (a / b) else if a > 0 then PInf else if a < 0 then NInf else NaN)"
| "fdiv (Fin a) PInf = Fin 0"
| "fdiv (Fin a) NInf = Fin 0"
| "fdiv PInf (Fin b) = (if b \<ge> 0 then PInf else NInf)"
| "fdiv NInf (Fin b) = (if b \<ge> 0 then NInf else PInf)"
| "fdiv _ _ = NaN"

fun fsub :: "fl \<Rightarrow> fl \<Rightarrow> fl" where
  "fsub NaN _ = NaN"
| "fsub _ NaN = NaN"
| "fsub (Fin a) (Fin b) = Fin (a - b)"
| "fsub (Fin a) PInf = NInf"
| "fsub (Fin a) NInf = PInf"
| "fsub PInf PInf = NaN"
| "fsub PInf _ = PInf"
| "fsub NInf NInf = NaN"
| "fsub NInf _ = NInf"

fun fmul :: "fl \<Rightarrow> fl \<Rightarrow> fl" where
  "fmul NaN _ = NaN"
| "fmul _ NaN = NaN"
| "fmul (Fin a) (Fin b) = Fin (a * b)"
| "fmul (Fin a) PInf = (if a > 0 then PInf else if a < 0 then NInf else NaN)"
| "fmul (Fin a) NInf = (if a > 0 then NInf else if a < 0 then PInf else NaN)"
| "fmul PInf (Fin b) = (if b > 0 then PInf else if b < 0 then NInf else NaN)"
| "fmul NInf (Fin b) = (if b > 0 then NInf else if b < 0 then PInf else NaN)"
| "fmul PInf PInf = PInf"
| "fmul PInf NInf = NInf"
| "fmul NInf PInf = NInf"
| "fmul NInf NInf = PInf"

fun is_inf :: "fl \<Rightarrow> bool" where
  "is_inf PInf = True"
| "is_inf NInf = True"
| "is_inf _ = False"

text \<open>\<open>s.shift(1)\<close>: every value one position later, the first position missing.\<close>

definition shift :: "'a \<Rightarrow> 'a list \<Rightarrow> 'a list" where
  "shift na xs = take (length xs) (na # xs)"

text \<open>
  \<open>s.pct_change()\<close> computes \<open>s / s.shift(1) - 1\<close> elementwise. (It first fills missing
  values forward; \<open>close_m\<close> has none, \<open>dropna\<close> having removed them.)
\<close>

definition pct_change :: "val list \<Rightarrow> fl list" where
  "pct_change s =
     (let data = map fl_of s
      in map2 (\<lambda>x y. fsub (fdiv x y) (Fin 1)) data (shift NaN data))"

text \<open>Line 225: \<open>ret_m = close_m.pct_change() * 100\<close>.\<close>

definition ret_m :: "val list \<Rightarrow> fl list" where
  "ret_m close_m_values = map (\<lambda>x. fmul x (Fin 100)) (pct_change close_m_values)"

subsection \<open>Rolling means (lines 247, 294-295)\<close>

text \<open>The at most \<open>w\<close> values ending at position \<open>i\<close>.\<close>

definition window :: "nat \<Rightarrow> nat \<Rightarrow> 'a list \<Rightarrow> 'a list" where
  "window w i xs = drop (Suc i - w) (take (Suc i) xs)"

definition mean :: "real list \<Rightarrow> real" where
  "mean ys = sum_list ys / real (length ys)"

text \<open>
  \<open>s.rolling(w, min_periods=mp).mean()\<close>: at each position the mean of the window's
  values that are not \<open>NaN\<close>, and \<open>NaN\<close> where the window has fewer than \<open>mp\<close> of them
  (or none). Without the argument, \<open>min_periods\<close> is the window size \<open>w\<close>.
\<close>

definition rolling_mean :: "nat \<Rightarrow> nat option \<Rightarrow> num list \<Rightarrow> num list" where
  "rolling_mean w min_periods s =
     (let mp = (case min_periods of None \<Rightarrow> w | Some m \<Rightarrow> m)
      in map (\<lambda>i. let obs = notna (window w i s)
                  in if length obs < mp \<or> obs = [] then None else Some (mean obs))
           [0..<length s])"

text \<open>Line 247: \<open>vol_ma = df["Volume"].rolling(30, min_periods=1).mean()\<close>.\<close>

definition vol_ma :: "row list \<Rightarrow> num list" where
  "vol_ma df = rolling_mean 30 (Some 1) (map Volume df)"

subsection \<open>Moving-average crossovers (lines 285-325)\<close>

text \<open>Comparisons of series values: false as soon as one side is \<open>NaN\<close>.\<close>

fun lt :: "num \<Rightarrow> num \<Rightarrow> bool" where
  "lt (Some a) (Some b) = (a < b)"
| "lt _ _ = False"

fun ge :: "num \<Rightarrow> num \<Rightarrow> bool" where
  "ge (Some a) (Some b) = (a \<ge> b)"
| "ge _ _ = False"

fun gt :: "num \<Rightarrow> num \<Rightarrow> bool" where
  "gt (Some a) (Some b) = (a > b)"
| "gt _ _ = False"

fun le :: "num \<Rightarrow> num \<Rightarrow> bool" where
  "le (Some a) (Some b) = (a \<le> b)"
| "le _ _ = False"

text \<open>Lines 312-313.\<close>

definition cross_up :: "num list \<Rightarrow> num list \<Rightarrow> bool list" where
  "cross_up mm_curta mm_longa =
     map2 (\<and>) (map2 lt (shift None mm_curta) (shift None mm_longa)) (map2 ge mm_curta mm_longa)"

definition cross_dn :: "num list \<Rightarrow> num list \<Rightarrow> bool list" where
  "cross_dn mm_curta mm_longa =
     map2 (\<and>) (map2 gt (shift None mm_curta) (shift None mm_longa)) (map2 le mm_curta mm_longa)"

text \<open>
  \<open>df.index[mask.fillna(False)]\<close>: the positions at which the mask is true. A boolean
  mask has no missing entry, so \<open>fillna(False)\<close> leaves it as it is.
\<close>

definition marked :: "bool list \<Rightarrow> nat list" where
  "marked bs = filter (\<lambda>i. bs ! i) [0..<length bs]"

record medias =
  mm_curta :: "num list"
  mm_longa :: "num list"
  cruzamento_de_alta :: "nat list"
  cruzamento_de_baixa :: "nat list"

text \<open>
  The tab's body, lines 291-335: a warning and nothing else when the short window is not
  smaller than the long one, the two means and their crossings otherwise. The two
  windows come from number inputs bounded to 2..120 and 3..240.
\<close>

definition medias_moveis :: "row list \<Rightarrow> int \<Rightarrow> int \<Rightarrow> string + medias" where
  "medias_moveis df win_short win_long =
     (if win_short \<ge> win_long then Inl ''A janela curta deve ser menor que a janela longa.''
      else let curta = rolling_mean (nat win_short) None (map Close df);
               longa = rolling_mean (nat win_long) None (map Close df)
           in Inr \<lparr>mm_curta = curta, mm_longa = longa,
                   cruzamento_de_alta = marked (cross_up curta longa),
                   cruzamento_de_baixa = marked (cross_dn curta longa)\<rparr>)"


section \<open>Properties\<close>

subsection \<open>\<open>load_data\<close>\<close>

lemma idx_set_index_row: "idx (set_index_row r) = the (Open_time_raw r)"
  by (simp add: set_index_row_def)

lemma Close_set_index_row: "Close (set_index_row r) = Close_raw r"
  by (simp add: set_index_row_def)

lemma load_data_sorted: "sorted (map idx (load_data csv))"
proof -
  have "map idx (load_data csv) =
        map (\<lambda>r. the (Open_time_raw r)) (sort_values (dropna_subset csv))"
    by (simp add: load_data_def set_index_def idx_set_index_row comp_def)
  then show ?thesis
    by (simp add: sort_values_def)
qed

lemma load_data_mset:
  "mset (load_data csv) = image_mset set_index_row (mset (dropna_subset csv))"
  by (simp add: load_data_def set_index_def sort_values_def)

lemma load_data_set:
  "set (load_data csv) = set_index_row ` set (dropna_subset csv)"
  by (simp add: load_data_def set_index_def sort_values_def)

text \<open>
  Claim C8. The frame returned by \<open>load_data\<close> is sorted non-decreasing by timestamp;
  it holds exactly the input rows whose timestamp and close price both parsed (each
  exactly as often as the input has it), so no row with a missing timestamp or close
  survives and the other rows are dropped without an error; and the result is a
  function of the input rows alone.
\<close>

theorem C8_load_data_sorted_clean:
  "sorted (map idx (load_data csv))
   \<and> mset (load_data csv)
       = image_mset set_index_row
           (filter_mset (\<lambda>r. Open_time_raw r \<noteq> None \<and> Close_raw r \<noteq> None) (mset csv))
   \<and> list_all (\<lambda>r. Close r \<noteq> None) (load_data csv)
   \<and> list_all (\<lambda>r. \<exists>s. s \<in> set csv \<and> Open_time_raw s = Some (idx r) \<and> Close_raw s = Close r
                   \<and> Close_raw s \<noteq> None) (load_data csv)"
proof -
  have a: "sorted (map idx (load_data csv))"
    by (rule load_data_sorted)
  have b: "mset (load_data csv)
       = image_mset set_index_row
           (filter_mset (\<lambda>r. Open_time_raw r \<noteq> None \<and> Close_raw r \<noteq> None) (mset csv))"
    by (simp add: load_data_mset dropna_subset_def)
  have d: "\<exists>s. s \<in> set csv \<and> Open_time_raw s = Some (idx r) \<and> Close_raw s = Close r
               \<and> Close_raw s \<noteq> None"
    if "r \<in> set (load_data csv)" for r
  proof -
    from that obtain s where s: "s \<in> set (dropna_subset csv)" and r: "r = set_index_row s"
      by (auto simp: load_data_set)
    from s have "s \<in> set csv" "Open_time_raw s \<noteq> None" "Close_raw s \<noteq> None"
      by (simp_all add: dropna_subset_def)
    with r show ?thesis
      by (auto simp: idx_set_index_row Close_set_index_row)
  qed
  have c: "list_all (\<lambda>r. Close r \<noteq> None) (load_data csv)"
    unfolding list_all_iff using d by metis
  have d': "list_all (\<lambda>r. \<exists>s. s \<in> set csv \<and> Open_time_raw s = Some (idx r)
                 \<and> Close_raw s = Close r \<and> Close_raw s \<noteq> None) (load_data csv)"
    unfolding list_all_iff using d by blast
  from a b c d' show ?thesis by blast
qed

subsection \<open>Moving-average crossovers\<close>

lemma shift_nth: "i < length xs \<Longrightarrow> shift na xs ! i = (if i = 0 then na else xs ! (i - 1))"
  by (cases i) (simp_all add: shift_def)

lemma length_shift: "length (shift na xs) = length xs"
  by (simp add: shift_def)

lemma marked_iff: "i \<in> set (marked bs) \<longleftrightarrow> i < length bs \<and> bs ! i"
  by (auto simp: marked_def)

lemma length_cross_up: "length (cross_up s l) = min (length s) (length l)"
  by (simp add: cross_up_def length_shift)

lemma length_cross_dn: "length (cross_dn s l) = min (length s) (length l)"
  by (simp add: cross_dn_def length_shift)

lemma cross_up_nth:
  "i < length s \<Longrightarrow> i < length l \<Longrightarrow>
   cross_up s l ! i = (0 < i \<and> lt (s ! (i - 1)) (l ! (i - 1)) \<and> ge (s ! i) (l ! i))"
  by (auto simp: cross_up_def length_shift shift_nth)

lemma cross_dn_nth:
  "i < length s \<Longrightarrow> i < length l \<Longrightarrow>
   cross_dn s l ! i = (0 < i \<and> gt (s ! (i - 1)) (l ! (i - 1)) \<and> le (s ! i) (l ! i))"
  by (auto simp: cross_dn_def length_shift shift_nth)

lemma lt_iff: "lt x y \<longleftrightarrow> (\<exists>a b. x = Some a \<and> y = Some b \<and> a < b)"
  by (cases x; cases y) simp_all

lemma gt_iff: "gt x y \<longleftrightarrow> (\<exists>a b. x = Some a \<and> y = Some b \<and> a > b)"
  by (cases x; cases y) simp_all

lemma ge_iff: "ge x y \<longleftrightarrow> (\<exists>a b. x = Some a \<and> y = Some b \<and> a \<ge> b)"
  by (cases x; cases y) simp_all

lemma le_iff: "le x y \<longleftrightarrow> (\<exists>a b. x = Some a \<and> y = Some b \<and> a \<le> b)"
  by (cases x; cases y) simp_all

lemma up_iff:
  "i \<in> set (marked (cross_up s l)) \<longleftrightarrow>
     0 < i \<and> i < length s \<and> i < length l \<and>
     (\<exists>a b c d. s ! (i - 1) = Some a \<and> l ! (i - 1) = Some b \<and> s ! i = Some c \<and> l ! i = Some d
        \<and> a < b \<and> c \<ge> d)"
proof (cases "i < length s \<and> i < length l")
  case True
  then show ?thesis
    by (simp add: marked_iff length_cross_up cross_up_nth lt_iff ge_iff) blast
next
  case False
  then show ?thesis
    by (auto simp: marked_iff length_cross_up)
qed

lemma dn_iff:
  "i \<in> set (marked (cross_dn s l)) \<longleftrightarrow>
     0 < i \<and> i < length s \<and> i < length l \<and>
     (\<exists>a b c d. s ! (i - 1) = Some a \<and> l ! (i - 1) = Some b \<and> s ! i = Some c \<and> l ! i = Some d
        \<and> a > b \<and> c \<le> d)"
proof (cases "i < length s \<and> i < length l")
  case True
  then show ?thesis
    by (simp add: marked_iff length_cross_dn cross_dn_nth gt_iff le_iff) blast
next
  case False
  then show ?thesis
    by (auto simp: marked_iff length_cross_dn)
qed

text \<open>
  Claim C2. Position \<open>i\<close> is marked as an up-crossing exactly when it has a predecessor,
  both means are defined at \<open>i - 1\<close> and at \<open>i\<close>, the short mean is below the long one at
  \<open>i - 1\<close> and not below it at \<open>i\<close>; a down-crossing is the mirror image. Position 0 is
  never marked, a position where one of the four values is \<open>NaN\<close> is in neither set, and
  for the short means 1, 3, 5 against the long means 4, 4, 4 the only up-crossing is at
  position 2 (and there is no down-crossing).
\<close>

theorem C2_crossover_events:
  "(i \<in> set (marked (cross_up s l)) \<longleftrightarrow>
      0 < i \<and> i < length s \<and> i < length l \<and>
      (\<exists>a b c d. s ! (i - 1) = Some a \<and> l ! (i - 1) = Some b \<and> s ! i = Some c \<and> l ! i = Some d
         \<and> a < b \<and> c \<ge> d))
   \<and> (i \<in> set (marked (cross_dn s l)) \<longleftrightarrow>
      0 < i \<and> i < length s \<and> i < length l \<and>
      (\<exists>a b c d. s ! (i - 1) = Some a \<and> l ! (i - 1) = Some b \<and> s ! i = Some c \<and> l ! i = Some d
         \<and> a > b \<and> c \<le> d))
   \<and> 0 \<notin> set (marked (cross_up s l)) \<and> 0 \<notin> set (marked (cross_dn s l))
   \<and> (s ! i = None \<or> l ! i = None \<or> s ! (i - 1) = None \<or> l ! (i - 1) = None \<longrightarrow>
        i \<notin> set (marked (cross_up s l)) \<and> i \<notin> set (marked (cross_dn s l)))
   \<and> marked (cross_up [Some 1, Some 3, Some 5] [Some 4, Some 4, Some 4]) = [2]
   \<and> marked (cross_dn [Some 1, Some 3, Some 5] [Some 4, Some 4, Some 4]) = []"
proof -
  have zero: "0 \<notin> set (marked (cross_up s l))" "0 \<notin> set (marked (cross_dn s l))"
    by (simp_all add: up_iff dn_iff)
  have undef: "i \<notin> set (marked (cross_up s l)) \<and> i \<notin> set (marked (cross_dn s l))"
    if "s ! i = None \<or> l ! i = None \<or> s ! (i - 1) = None \<or> l ! (i - 1) = None"
    using that unfolding up_iff dn_iff by auto
  have ex_up: "marked (cross_up [Some 1, Some 3, Some 5] [Some 4, Some 4, Some 4]) = [2]"
    by (simp add: marked_def cross_up_def shift_def upt_rec)
  have ex_dn: "marked (cross_dn [Some 1, Some 3, Some 5] [Some 4, Some 4, Some 4]) = []"
    by (simp add: marked_def cross_dn_def shift_def upt_rec)
  show ?thesis
    using up_iff [of i s l] dn_iff [of i s l] zero undef ex_up ex_dn by blast
qed

theorem C2_crossover_events_witness:
  "[None, Some 1, Some 5] ! (1 - 1) = (None :: num)
   \<and> (1::nat) \<notin> set (marked (cross_up [None, Some 1, Some 5] [Some 2, Some 2, Some 2]))
   \<and> (1::nat) \<notin> set (marked (cross_dn [None, Some 1, Some 5] [Some 2, Some 2, Some 2]))
   \<and> (2::nat) \<in> set (marked (cross_up [None, Some 1, Some 5] [Some 2, Some 2, Some 2]))"
  using C2_crossover_events [of 1 "[None, Some 1, Some 5]" "[Some 2, Some 2, Some 2]"]
        C2_crossover_events [of 2 "[None, Some 1, Some 5]" "[Some 2, Some 2, Some 2]"]
  by simp

text \<open>
  Claim C10. No position is both an up-crossing and a down-crossing: the short mean
  cannot be both below and above the long mean at the previous position.
\<close>

theorem C10_crossings_disjoint:
  "set (marked (cross_up s l)) \<inter> set (marked (cross_dn s l)) = {}"
proof -
  have "\<not> (i \<in> set (marked (cross_up s l)) \<and> i \<in> set (marked (cross_dn s l)))" for i
    unfolding up_iff dn_iff by auto
  then show ?thesis by blast
qed

text \<open>
  Claim C5. When the short window is not smaller than the long window, the tab shows
  the warning and returns nothing else: no mean and no crossing is computed, for any
  data frame, and the two windows are not adjusted. Windows 30 and 30 are rejected.
\<close>

theorem C5_window_order_rejected:
  "win_long \<le> win_short \<Longrightarrow>
     medias_moveis df win_short win_long
       = Inl ''A janela curta deve ser menor que a janela longa.''
     \<and> (\<forall>m. medias_moveis df win_short win_long \<noteq> Inr m)"
  by (simp add: medias_moveis_def)

theorem C5_window_order_rejected_witness:
  "(30::int) \<le> 30
   \<and> medias_moveis [] 30 30 = Inl ''A janela curta deve ser menor que a janela longa.''
   \<and> (\<forall>m. medias_moveis [] 30 30 \<noteq> Inr m)"
  using C5_window_order_rejected [of 30 30 "[]"] by simp

subsection \<open>Monthly return\<close>

lemma length_pct_change: "length (pct_change s) = length s"
  by (simp add: pct_change_def Let_def length_shift)

lemma length_ret_m: "length (ret_m s) = length s"
  by (simp add: ret_m_def length_pct_change)

lemma fdiv_NaN: "fdiv x NaN = NaN"
  by (cases x) simp_all

lemma pct_change_nth:
  "i < length s \<Longrightarrow>
   pct_change s ! i
     = (if i = 0 then NaN else fsub (fdiv (fl_of (s ! i)) (fl_of (s ! (i - 1)))) (Fin 1))"
  by (cases "i = 0") (simp_all add: pct_change_def Let_def length_shift shift_nth fdiv_NaN)

lemma ret_m_nth:
  "i < length s \<Longrightarrow>
   ret_m s ! i
     = (if i = 0 then NaN
        else fmul (fsub (fdiv (fl_of (s ! i)) (fl_of (s ! (i - 1)))) (Fin 1)) (Fin 100))"
  by (cases "i = 0") (simp_all add: ret_m_def length_pct_change pct_change_nth)





text \<open>
  Claim C3, as stated, fails: after a value of exactly 0 the return is \<open>NaN\<close> only if the
  value at the position is 0 too. A frame that closes at 0 on 2020-01-01 and at 5 on
  2020-02-01 has the monthly closes 0, 5, and the return at position 1 is infinite.
\<close>

theorem C3_counterexample:
  "close_m
     [\<lparr>idx = 18262 * 86400000000000, Open = Some 0, High = Some 0, Low = Some 0,
        Close = Some 0, Volume = Some 10\<rparr>,
      \<lparr>idx = 18293 * 86400000000000, Open = Some 0, High = Some 6, Low = Some 0,
        Close = Some 5, Volume = Some 30\<rparr>]
   = [(24240, 0), (24241, 5)]
   \<and> (0::nat) < 1 \<and> 1 < length [Finite 0, Finite 5]
   \<and> [Finite 0, Finite 5] ! (1 - 1) = Finite 0
   \<and> ret_m [Finite 0, Finite 5] ! 1 = PInf \<and> ret_m [Finite 0, Finite 5] ! 1 \<noteq> NaN
   \<and> is_inf (ret_m [Finite 0, Finite 5] ! 1)"
  by code_simp

text \<open>
  Claim C3, amended. At a position \<open>i > 0\<close> whose previous value is exactly 0 the return
  is computed without an error: it is \<open>NaN\<close> if the value at \<open>i\<close> is 0 as well, and an
  infinite value otherwise.
\<close>

theorem C3_percent_change_after_zero:
  "0 < i \<Longrightarrow> i < length s \<Longrightarrow> s ! (i - 1) = Finite 0 \<Longrightarrow>
     i < length (ret_m s)
     \<and> (s ! i = Finite 0 \<longrightarrow> ret_m s ! i = NaN)
     \<and> (s ! i \<noteq> Finite 0 \<longrightarrow> is_inf (ret_m s ! i))"
  by (cases "s ! i") (simp_all add: ret_m_nth length_ret_m)

theorem C3_percent_change_after_zero_witness:
  "(0::nat) < 1 \<and> 1 < length [Finite 0, Finite 0, Finite (- 3)]
   \<and> [Finite 0, Finite 0, Finite (- 3)] ! (1 - 1) = Finite 0
   \<and> [Finite 0, Finite 0, Finite (- 3)] ! 1 = Finite 0
   \<and> ret_m [Finite 0, Finite 0, Finite (- 3)] ! 1 = NaN
   \<and> (0::nat) < 2 \<and> 2 < length [Finite 0, Finite 0, Finite (- 3)]
   \<and> [Finite 0, Finite 0, Finite (- 3)] ! (2 - 1) = Finite 0
   \<and> [Finite 0, Finite 0, Finite (- 3)] ! 2 \<noteq> Finite 0
   \<and> is_inf (ret_m [Finite 0, Finite 0, Finite (- 3)] ! 2)"
  using C3_percent_change_after_zero [of 1 "[Finite 0, Finite 0, Finite (- 3)]"]
        C3_percent_change_after_zero [of 2 "[Finite 0, Finite 0, Finite (- 3)]"]
  by simp

subsection \<open>Summary figures\<close>

text \<open>
  Claim C4, as stated, fails: for a series that starts with 0, here the monthly closes
  0, 5 of a frame that closes at 0 on 2020-01-01 and at 5 on 2020-02-01, the variation
  shown is the default 0, a defined value, where the formula of the returns applied to
  the first and last value is infinite.
\<close>

theorem C4_counterexample:
  "serie
     [\<lparr>idx = 18262 * 86400000000000, Open = Some 0, High = Some 0, Low = Some 0,
        Close = Some 0, Volume = Some 10\<rparr>,
      \<lparr>idx = 18293 * 86400000000000, Open = Some 0, High = Some 6, Low = Some 0,
        Close = Some 5, Volume = Some 30\<rparr>] Close_m Mes
   = [(24240, 0), (24241, 5)]
   \<and> [0, 5 :: real] \<noteq> [] \<and> hd [0, 5 :: real] = 0
   \<and> kpi [0, 5] = Inr \<lparr>primeiro = 0, ultimo = 5, var_pct = 0\<rparr>
   \<and> ret_m [Finite (hd [0, 5]), Finite (last [0, 5])] ! 1 = PInf"
  by code_simp

text \<open>
  Claim C4, amended. For a non-empty series the figures are its first value, its last
  value and the variation \<open>(last - first) / first * 100\<close>, which is what the formula of
  the returns gives for the pair (first, last), when the first value is not 0; when the
  first value is exactly 0 the variation is the default 0.
\<close>

theorem C4_var_pct:
  "s \<noteq> [] \<Longrightarrow>
     (\<exists>k. kpi s = Inr k \<and> primeiro k = hd s \<and> ultimo k = last s
        \<and> var_pct k = (if hd s \<noteq> 0 then (last s - hd s) / hd s * 100 else 0)
        \<and> (hd s \<noteq> 0 \<longrightarrow> Fin (var_pct k) = ret_m [Finite (hd s), Finite (last s)] ! 1))"
  by (simp add: kpi_def Let_def ret_m_def pct_change_def shift_def field_simps)

theorem C4_var_pct_witness:
  "[4, 7, 5 :: real] \<noteq> [] \<and> hd [4, 7, 5 :: real] \<noteq> 0
   \<and> kpi [4, 7, 5] = Inr \<lparr>primeiro = 4, ultimo = 5, var_pct = 25\<rparr>
   \<and> ret_m [Finite 4, Finite 5] ! 1 = Fin 25"
  using C4_var_pct [of "[4, 7, 5]"] by (auto simp: kpi_def)

subsection \<open>Rolling means\<close>

lemma notna_map_Some: "notna (map Some xs) = xs"
  by (induction xs) (simp_all add: notna_def List.map_filter_simps)

lemma window_map: "window w i (map f xs) = map f (window w i xs)"
  by (simp add: window_def take_map drop_map)

lemma length_window: "i < length xs \<Longrightarrow> length (window w i xs) = min (Suc i) w"
  by (auto simp: window_def)

lemma window_nths:
  "i < length xs \<Longrightarrow> window w i xs = map (\<lambda>k. xs ! k) [Suc i - min (Suc i) w ..< Suc i]"
proof -
  assume i: "i < length xs"
  have "take (Suc i) xs = take (Suc i) (map (\<lambda>k. xs ! k) [0..<length xs])"
    by (simp only: map_nth)
  also have "\<dots> = map (\<lambda>k. xs ! k) (take (Suc i) [0..<length xs])"
    by (simp only: take_map)
  also have "take (Suc i) [0..<length xs] = [0..<Suc i]"
    using i by (simp del: upt_Suc)
  finally have "take (Suc i) xs = map (\<lambda>k. xs ! k) [0..<Suc i]" .
  then have "window w i xs = map (\<lambda>k. xs ! k) (drop (Suc i - w) [0..<Suc i])"
    by (simp only: window_def drop_map)
  also have "drop (Suc i - w) [0..<Suc i] = [Suc i - w ..< Suc i]"
    by (simp add: drop_upt del: upt_Suc)
  also have "Suc i - w = Suc i - min (Suc i) w"
    by simp
  finally show ?thesis .
qed

lemma rolling_mean_nth:
  "i < length s \<Longrightarrow>
   rolling_mean w mp s ! i =
     (if length (notna (window w i s)) < (case mp of None \<Rightarrow> w | Some m \<Rightarrow> m)
         \<or> notna (window w i s) = []
      then None else Some (mean (notna (window w i s))))"
  by (simp add: rolling_mean_def Let_def)

lemma length_rolling_mean: "length (rolling_mean w mp s) = length s"
  by (simp add: rolling_mean_def Let_def)

text \<open>
  Claim C1, as stated, fails for the short and long means of the closing price, which
  are taken without \<open>min_periods\<close>: with windows 2 and 3 over the closes 1, 2, 3 the short
  mean has no value at position 0 and the long mean none at positions 0 and 1. It also
  fails for the 30-row mean of the volume where the window holds no volume at all.
\<close>

theorem C1_counterexample:
  "medias_moveis
     [\<lparr>idx = 0, Open = None, High = None, Low = None, Close = Some 1, Volume = None\<rparr>,
      \<lparr>idx = 1, Open = None, High = None, Low = None, Close = Some 2, Volume = None\<rparr>,
      \<lparr>idx = 2, Open = None, High = None, Low = None, Close = Some 3, Volume = None\<rparr>] 2 3
   = Inr \<lparr>mm_curta = [None, Some (3 / 2), Some (5 / 2)], mm_longa = [None, None, Some 2],
          cruzamento_de_alta = [], cruzamento_de_baixa = []\<rparr>
   \<and> vol_ma
     [\<lparr>idx = 0, Open = None, High = None, Low = None, Close = Some 1, Volume = None\<rparr>,
      \<lparr>idx = 1, Open = None, High = None, Low = None, Close = Some 2, Volume = Some 4\<rparr>]
   = [None, Some 4]"
  by code_simp

text \<open>
  Claim C1, amended. For a window size \<open>w \<ge> 1\<close> and a position \<open>i\<close> of the series, the
  window is the latest \<open>min (i + 1) w\<close> values ending at \<open>i\<close>. With \<open>min_periods = 1\<close> (the
  mean of the volume) the result at \<open>i\<close> is the mean of the window's defined values, and
  is absent only if the window has none; on a series without undefined values it is the
  mean of the whole window at every position. Without \<open>min_periods\<close> (the short and long
  means of the close) the result on such a series is that mean from position \<open>w - 1\<close> on
  and is absent at the positions before, where the window is not full.
\<close>

theorem C1_rolling_mean:
  assumes "1 \<le> w" and "i < length s"
  shows "length (rolling_mean w (Some 1) s) = length s
   \<and> length (rolling_mean w None s) = length s
   \<and> window w i s = map (\<lambda>k. s ! k) [Suc i - min (Suc i) w ..< Suc i]
   \<and> length (window w i s) = min (Suc i) w
   \<and> rolling_mean w (Some 1) s ! i
        = (if notna (window w i s) = [] then None else Some (mean (notna (window w i s))))
   \<and> (s = map Some xs \<longrightarrow>
        rolling_mean w (Some 1) s ! i = Some (mean (window w i xs))
        \<and> rolling_mean w None s ! i
            = (if Suc i < w then None else Some (mean (window w i xs))))"
proof -
  have l: "length (window w i s) = min (Suc i) w"
    using assms by (simp add: length_window)
  have g: "rolling_mean w (Some 1) s ! i
        = (if notna (window w i s) = [] then None else Some (mean (notna (window w i s))))"
    using assms by (auto simp: rolling_mean_nth)
  have d: "rolling_mean w (Some 1) s ! i = Some (mean (window w i xs))
        \<and> rolling_mean w None s ! i
            = (if Suc i < w then None else Some (mean (window w i xs)))"
    if s: "s = map Some xs"
  proof -
    have i: "i < length xs"
      using assms s by simp
    have n: "notna (window w i s) = window w i xs"
      by (simp add: s window_map notna_map_Some)
    have lx: "length (window w i xs) = min (Suc i) w"
      using i by (simp add: length_window)
    have ne: "window w i xs \<noteq> []"
      using lx assms by (metis Zero_not_Suc length_0_conv min_def not_one_le_zero)
    have a: "rolling_mean w (Some 1) s ! i = Some (mean (window w i xs))"
      using assms ne by (simp add: rolling_mean_nth n)
    have b: "rolling_mean w None s ! i
         = (if Suc i < w then None else Some (mean (window w i xs)))"
      using assms ne by (auto simp add: rolling_mean_nth n lx)
    from a b show ?thesis by blast
  qed
  show ?thesis
    using l g d window_nths [OF assms(2)] length_rolling_mean by blast
qed

theorem C1_rolling_mean_witness:
  "(1::nat) \<le> 2 \<and> (0::nat) < length [Some 1, Some 2, Some (3::real)]
   \<and> [Some 1, Some 2, Some (3::real)] = map Some [1, 2, 3]
   \<and> rolling_mean 2 (Some 1) [Some 1, Some 2, Some 3] ! 0 = Some 1
   \<and> rolling_mean 2 None [Some 1, Some 2, Some 3] ! 0 = None
   \<and> rolling_mean 2 (Some 1) [Some 1, Some 2, Some 3] ! 2 = Some (5 / 2)
   \<and> rolling_mean 2 None [Some 1, Some 2, Some 3] ! 2 = Some (5 / 2)"
  using C1_rolling_mean [of 2 0 "[Some 1, Some 2, Some 3]" "[1, 2, 3]"]
        C1_rolling_mean [of 2 2 "[Some 1, Some 2, Some 3]" "[1, 2, 3]"]
  by (simp add: window_def mean_def notna_def List.map_filter_simps)

subsection \<open>Date range\<close>

lemma slice_sorted_filter:
  fixes k :: "'a \<Rightarrow> int"
  shows "sorted (map k xs) \<Longrightarrow>
   takeWhile (\<lambda>r. k r \<le> hi) (dropWhile (\<lambda>r. k r < lo) xs)
     = filter (\<lambda>r. lo \<le> k r \<and> k r \<le> hi) xs"
proof (induction xs)
  case Nil
  then show ?case by simp
next
  case (Cons x xs)
  then have ge: "\<forall>y\<in>set xs. k x \<le> k y" and sx: "sorted (map k xs)"
    by simp_all
  show ?case
  proof (cases "k x < lo")
    case True
    with Cons.IH sx show ?thesis by simp
  next
    case False
    then have all: "\<forall>y\<in>set xs. \<not> k y < lo"
      using ge by fastforce
    then have dw: "dropWhile (\<lambda>r. k r < lo) xs = xs"
      by (cases xs) simp_all
    show ?thesis
    proof (cases "k x \<le> hi")
      case True
      with False Cons.IH sx dw show ?thesis by simp
    next
      case hi: False
      then have "\<forall>y\<in>set xs. \<not> k y \<le> hi"
        using ge by fastforce
      then have "filter (\<lambda>r. lo \<le> k r \<and> k r \<le> hi) xs = []"
        by (simp add: filter_empty_conv)
      with False hi show ?thesis by simp
    qed
  qed
qed

lemma day_start_le: "day_start d \<le> t \<longleftrightarrow> d \<le> date t"
  unfolding day_start_def date_def ns_per_day_def by linarith

lemma le_day_end: "t \<le> day_end d \<longleftrightarrow> date t \<le> d"
  unfolding day_end_def date_def ns_per_day_def by linarith

lemma df_loc_filter:
  "sorted (map idx df) \<Longrightarrow>
   df_loc df t0 t1 = filter (\<lambda>r. day_start t0 \<le> idx r \<and> idx r \<le> day_end t1) df"
  unfolding df_loc_def by (rule slice_sorted_filter)

lemma df_loc_own_range:
  assumes "sorted (map idx df)" and "df \<noteq> []"
  shows "df_loc df (min_d df) (max_d df) = df"
proof -
  have "day_start (min_d df) \<le> idx r \<and> idx r \<le> day_end (max_d df)" if "r \<in> set df" for r
  proof -
    from that have m: "idx r \<in> set (map idx df)" by simp
    have "Min (set (map idx df)) \<le> idx r" "idx r \<le> Max (set (map idx df))"
      using m by (simp_all only: Min_le Max_ge List.finite_set)
    moreover have "day_start (min_d df) \<le> Min (set (map idx df))"
      by (simp add: day_start_le min_d_def)
    moreover have "Max (set (map idx df)) \<le> day_end (max_d df)"
      by (simp add: le_day_end max_d_def)
    ultimately show ?thesis by linarith
  qed
  then have "filter (\<lambda>r. day_start (min_d df) \<le> idx r \<and> idx r \<le> day_end (max_d df)) df = df"
    by (simp add: filter_id_conv)
  with assms(1) show ?thesis by (simp add: df_loc_filter)
qed

text \<open>
  Claim C9. The slice \<open>df.loc[str(t0):str(t1)]\<close> of the loaded frame holds exactly the
  rows whose timestamp lies between the first instant of day \<open>t0\<close> and the last instant
  of day \<open>t1\<close>, both included, that is, whose calendar day lies between \<open>t0\<close> and \<open>t1\<close>,
  in the order of the frame. Hence the slice from the day of the earliest timestamp to
  the day of the latest is the whole frame. An empty slice is returned as an empty
  frame: the script then stops with its own message, not with the one for a failed load.
\<close>

theorem C9_filter_range:
  "df_loc (load_data csv) t0 t1
     = filter (\<lambda>r. day_start t0 \<le> idx r \<and> idx r \<le> day_end t1) (load_data csv)
   \<and> df_loc (load_data csv) t0 t1
     = filter (\<lambda>r. t0 \<le> date (idx r) \<and> date (idx r) \<le> t1) (load_data csv)
   \<and> (load_data csv \<noteq> [] \<longrightarrow>
        df_loc (load_data csv) (min_d (load_data csv)) (max_d (load_data csv)) = load_data csv)
   \<and> select_range (load_data csv) t0 t1
     = (if load_data csv = [] then Inl Load_empty
        else if df_loc (load_data csv) t0 t1 = [] then Inl Range_empty
        else Inr (df_loc (load_data csv) t0 t1))"
proof -
  have s: "sorted (map idx (load_data csv))"
    by (rule load_data_sorted)
  have a: "df_loc (load_data csv) t0 t1
     = filter (\<lambda>r. day_start t0 \<le> idx r \<and> idx r \<le> day_end t1) (load_data csv)"
    using s by (rule df_loc_filter)
  have b: "df_loc (load_data csv) t0 t1
     = filter (\<lambda>r. t0 \<le> date (idx r) \<and> date (idx r) \<le> t1) (load_data csv)"
    unfolding a by (simp add: day_start_le le_day_end)
  have c: "df_loc (load_data csv) (min_d (load_data csv)) (max_d (load_data csv)) = load_data csv"
    if "load_data csv \<noteq> []"
    using s that by (rule df_loc_own_range)
  have d: "select_range (load_data csv) t0 t1
     = (if load_data csv = [] then Inl Load_empty
        else if df_loc (load_data csv) t0 t1 = [] then Inl Range_empty
        else Inr (df_loc (load_data csv) t0 t1))"
    by (simp add: select_range_def Let_def)
  from a b c d show ?thesis by blast
qed

theorem C9_filter_range_witness:
  "load_data
       [\<lparr>Open_time_raw = Some (18264 * 86400000000000 + 3600000000000), Open_raw = None, High_raw = None,
          Low_raw = None, Close_raw = Some 7, Volume_raw = Some 30\<rparr>,
        \<lparr>Open_time_raw = None, Open_raw = None, High_raw = None,
          Low_raw = None, Close_raw = Some 9, Volume_raw = None\<rparr>,
        \<lparr>Open_time_raw = Some (18262 * 86400000000000), Open_raw = Some 1, High_raw = None,
          Low_raw = None, Close_raw = Some 5, Volume_raw = Some 10\<rparr>] \<noteq> []
   \<and> df_loc (load_data
       [\<lparr>Open_time_raw = Some (18264 * 86400000000000 + 3600000000000), Open_raw = None, High_raw = None,
          Low_raw = None, Close_raw = Some 7, Volume_raw = Some 30\<rparr>,
        \<lparr>Open_time_raw = None, Open_raw = None, High_raw = None,
          Low_raw = None, Close_raw = Some 9, Volume_raw = None\<rparr>,
        \<lparr>Open_time_raw = Some (18262 * 86400000000000), Open_raw = Some 1, High_raw = None,
          Low_raw = None, Close_raw = Some 5, Volume_raw = Some 10\<rparr>]) 18262 18264
     = [\<lparr>idx = 18262 * 86400000000000, Open = Some 1, High = None, Low = None,
          Close = Some 5, Volume = Some 10\<rparr>,
        \<lparr>idx = 18264 * 86400000000000 + 3600000000000, Open = None, High = None, Low = None,
          Close = Some 7, Volume = Some 30\<rparr>]
   \<and> df_loc (load_data
       [\<lparr>Open_time_raw = Some (18264 * 86400000000000 + 3600000000000), Open_raw = None, High_raw = None,
          Low_raw = None, Close_raw = Some 7, Volume_raw = Some 30\<rparr>,
        \<lparr>Open_time_raw = None, Open_raw = None, High_raw = None,
          Low_raw = None, Close_raw = Some 9, Volume_raw = None\<rparr>,
        \<lparr>Open_time_raw = Some (18262 * 86400000000000), Open_raw = Some 1, High_raw = None,
          Low_raw = None, Close_raw = Some 5, Volume_raw = Some 10\<rparr>]) 18263 18263 = []"
proof -
  let ?csv = "[\<lparr>Open_time_raw = Some (18264 * 86400000000000 + 3600000000000), Open_raw = None, High_raw = None,
          Low_raw = None, Close_raw = Some 7, Volume_raw = Some 30\<rparr>,
        \<lparr>Open_time_raw = None, Open_raw = None, High_raw = None,
          Low_raw = None, Close_raw = Some 9, Volume_raw = None\<rparr>,
        \<lparr>Open_time_raw = Some (18262 * 86400000000000), Open_raw = Some 1, High_raw = None,
          Low_raw = None, Close_raw = Some 5, Volume_raw = Some 10\<rparr>]"
  have l: "load_data ?csv = [\<lparr>idx = 18262 * 86400000000000, Open = Some 1, High = None, Low = None,
          Close = Some 5, Volume = Some 10\<rparr>,
        \<lparr>idx = 18264 * 86400000000000 + 3600000000000, Open = None, High = None, Low = None,
          Close = Some 7, Volume = Some 30\<rparr>]"
    by (simp add: load_data_def dropna_subset_def sort_values_def set_index_def set_index_row_def)
  have m: "min_d (load_data ?csv) = 18262" "max_d (load_data ?csv) = 18264"
    unfolding l by (simp_all add: min_d_def max_d_def date_def ns_per_day_def)
  have ne: "load_data ?csv \<noteq> []"
    unfolding l by simp
  have "df_loc (load_data ?csv) (min_d (load_data ?csv)) (max_d (load_data ?csv))
          = load_data ?csv"
    using C9_filter_range [of ?csv 0 0] ne by blast
  then have "df_loc (load_data ?csv) 18262 18264 = load_data ?csv"
    by (simp only: m)
  moreover have "df_loc (load_data ?csv) 18263 18263 = []"
    unfolding l by (simp add: df_loc_def day_start_def day_end_def ns_per_day_def)
  ultimately show ?thesis
    using ne unfolding l by simp
qed

subsection \<open>Resampling\<close>

lemma dropna_reduce_Sum:
  "dropna (map (\<lambda>b. (b, reduce Sum (g b))) bs) = map (\<lambda>b. (b, sum_list (notna (g b)))) bs"
  by (induction bs) (simp_all add: dropna_def List.map_filter_simps)

lemma dropna_reduce_Last:
  "dropna (map (\<lambda>b. (b, reduce Last (g b))) bs)
     = map (\<lambda>b. (b, last (notna (g b)))) (filter (\<lambda>b. notna (g b) \<noteq> []) bs)"
  by (induction bs) (simp_all add: dropna_def List.map_filter_simps)

text \<open>
  Under \<open>last\<close> the resampled series has the buckets that hold a defined value. Under
  \<open>sum\<close> it has every bucket of the range, \<open>dropna\<close> removing none of them.
\<close>

lemma buckets_Last:
  "s \<noteq> [] \<Longrightarrow>
   map fst (dropna (resample_agg f Last s))
     = filter (\<lambda>b. notna (in_bucket f b s) \<noteq> [])
         [bucket f (Min (set (map fst s))) .. bucket f (Max (set (map fst s)))]"
  by (simp add: resample_agg_def dropna_reduce_Last comp_def del: reduce.simps)

lemma buckets_Sum:
  "s \<noteq> [] \<Longrightarrow>
   map fst (dropna (resample_agg f Sum s))
     = [bucket f (Min (set (map fst s))) .. bucket f (Max (set (map fst s)))]"
  by (simp add: resample_agg_def dropna_reduce_Sum comp_def del: reduce.simps)

text \<open>
  Claim C6 says that a resampled series has a bucket if and only if a row falls into
  it, empty buckets being omitted and never filled with zero, with \<open>last\<close> for the prices
  and \<open>sum\<close> for the volume. The script does so for the prices. For the volume it does
  not: with rows on 2020-01-01 (day 18262) and 2020-01-03 (day 18264) only, the daily
  volume has a bucket for 2020-01-02 with the value 0, where the daily close of the
  same frame has none. Three daily volumes 10, 20, 30 of one month do sum to 60.
\<close>

theorem C6_zero_filled_bucket:
  "serie
     [\<lparr>idx = 18262 * 86400000000000, Open = Some 4, High = Some 6, Low = Some 3,
        Close = Some 5, Volume = Some 10\<rparr>,
      \<lparr>idx = 18264 * 86400000000000, Open = Some 5, High = Some 8, Low = Some 5,
        Close = Some 7, Volume = Some 30\<rparr>] Volume_m Dia
   = [(18262, 10), (18263, 0), (18264, 30)]
   \<and> serie
     [\<lparr>idx = 18262 * 86400000000000, Open = Some 4, High = Some 6, Low = Some 3,
        Close = Some 5, Volume = Some 10\<rparr>,
      \<lparr>idx = 18264 * 86400000000000, Open = Some 5, High = Some 8, Low = Some 5,
        Close = Some 7, Volume = Some 30\<rparr>] Close_m Dia
   = [(18262, 5), (18264, 7)]
   \<and> serie
     [\<lparr>idx = 18262 * 86400000000000, Open = Some 4, High = Some 6, Low = Some 3,
        Close = Some 5, Volume = Some 10\<rparr>,
      \<lparr>idx = 18263 * 86400000000000, Open = Some 4, High = Some 6, Low = Some 3,
        Close = Some 6, Volume = Some 20\<rparr>,
      \<lparr>idx = 18264 * 86400000000000, Open = Some 5, High = Some 8, Low = Some 5,
        Close = Some 7, Volume = Some 30\<rparr>] Volume_m Mes
   = [(24240, 60)]"
  by code_simp

end
